theory Spec2Isabelle
  imports Complex_Main "HOL-Library.Word" "HOL-Library.List_Lexorder"
begin

section \<open>Text images: the renderer and the dataset of \<open>src/img_utilities.py\<close>\<close>

subsection \<open>The libraries the module calls\<close>

text \<open>
  The module is glue over an imaging library, a text shaping library and a tensor
  library. None of them is part of the repository, so their behaviour is a parameter of
  the model: a record of the functions that the module calls. Only what the module's own
  arithmetic depends on is fixed here (how a bounding box moves with the drawing origin,
  how a colour argument is resolved, how a pixel byte becomes a normalised number).
  Two library calls have a failure among their results: creating the canvas, which the
  imaging library refuses for a negative or an oversized size, and loading a font file.
  Measuring, shaping and drawing a text are taken to return.
\<close>

datatype error =
  IOError string | ValueError string | OverflowError string | IndexError

type_synonym bbox = "int \<times> int \<times> int \<times> int"

type_synonym rgb = "nat \<times> nat \<times> nat"

text \<open>
  A loaded font: \<open>font.getbbox(text)\<close> is the box \<open>(left, top, right, bottom)\<close> of the
  ink of \<open>text\<close> drawn with its anchor (left end of the ascender line) at the origin,
  \<open>font.getmetrics()\<close> is \<open>(ascent, descent)\<close>.
\<close>

record font =
  getbbox :: "string \<Rightarrow> bbox"
  getmetrics :: "int \<times> int"

text \<open>A colour argument is a colour name (\<open>'white'\<close>) or a tuple (\<open>(255, 255, 255)\<close>).\<close>

datatype color = ColorName string | ColorRGB nat nat nat

record 'img pil =
  truetype :: "string \<Rightarrow> int \<Rightarrow> error + font"
  load_default :: font
  colormap :: "string \<Rightarrow> rgb"
  new_raster :: "int \<times> int \<Rightarrow> rgb \<Rightarrow> error + 'img"
  draw_raster :: "'img \<Rightarrow> int \<times> int \<Rightarrow> string \<Rightarrow> font \<Rightarrow> rgb \<Rightarrow> 'img"
  reshape :: "string \<Rightarrow> string"
  get_display :: "string \<Rightarrow> string"
  getdata :: "'img \<Rightarrow> 8 word list list"

text \<open>A colour name is looked up in the library's colour table, a tuple is taken as it is.\<close>

definition getcolor :: "'img pil \<Rightarrow> color \<Rightarrow> rgb" where
  "getcolor lib c = (case c of ColorName s \<Rightarrow> colormap lib s | ColorRGB r g b \<Rightarrow> (r, g, b))"

text \<open>
  \<open>Image.new('RGB', size, color)\<close>: the new canvas, or the failure that the library
  raises for a size it does not accept.
\<close>

definition Image_new :: "'img pil \<Rightarrow> int \<times> int \<Rightarrow> color \<Rightarrow> error + 'img" where
  "Image_new lib image_size color = new_raster lib image_size (getcolor lib color)"

text \<open>\<open>draw.text(xy, text, font=font, fill=fill)\<close>; the image drawn on is returned.\<close>

definition draw_text :: "'img pil \<Rightarrow> 'img \<Rightarrow> int \<times> int \<Rightarrow> string \<Rightarrow> font \<Rightarrow> color \<Rightarrow> 'img" where
  "draw_text lib img xy text font fill = draw_raster lib img xy text font (getcolor lib fill)"

text \<open>
  \<open>draw.textbbox(xy, text, font=font)\<close>: the box of the ink of \<open>text\<close> when it is drawn at
  \<open>xy\<close>, which is the font's box moved by \<open>xy\<close>.
\<close>

definition textbbox :: "int \<times> int \<Rightarrow> string \<Rightarrow> font \<Rightarrow> bbox" where
  "textbbox xy text font =
     (case getbbox font text of (l, t, r, b) \<Rightarrow> (l + fst xy, t + snd xy, r + fst xy, b + snd xy))"

subsection \<open>\<open>render_text_image\<close>\<close>

text \<open>
  Lines 37 to 58 of \<open>render_text_image\<close>: the extents of the measured box, the table of
  the nine anchors, the lookup with its default, and the descent adjustment of the
  bottom anchors. \<open>//\<close> is floor division, as \<open>div\<close> on \<open>int\<close> is.
\<close>

definition draw_origin :: "int \<times> int \<Rightarrow> bbox \<Rightarrow> font \<Rightarrow> string \<Rightarrow> int \<times> int" where
  "draw_origin image_size text_bbox font position =
     (case text_bbox of (bbox0, bbox1, bbox2, bbox3) \<Rightarrow>
        let text_width = bbox2 - bbox0;
            text_height = bbox3 - bbox1;
            positions =
              [(''top-left'', (0, 0)),
               (''top-center'', ((fst image_size - text_width) div 2, 0)),
               (''top-right'', (fst image_size - text_width, 0)),
               (''center-left'', (0, (snd image_size - text_height) div 2)),
               (''center'', ((fst image_size - text_width) div 2,
                             (snd image_size - text_height) div 2)),
               (''center-right'', (fst image_size - text_width,
                                   (snd image_size - text_height) div 2)),
               (''bottom-left'', (0, snd image_size - text_height)),
               (''bottom-center'', ((fst image_size - text_width) div 2,
                                    snd image_size - text_height)),
               (''bottom-right'', (fst image_size - text_width,
                                   snd image_size - text_height))];
            (x, y) = (case map_of positions position of Some xy \<Rightarrow> xy | None \<Rightarrow> (0, 0));
            y = (if position \<in> set [''bottom-left'', ''bottom-center'', ''bottom-right'']
                 then y - snd (getmetrics font) else y)
        in (x, y))"

text \<open>
  \<open>render_text_image\<close>. The canvas is created first (line 23), then the font is loaded
  (line 27). Neither failure is caught: the first one met is the result.
\<close>

definition render_text_image ::
  "'img pil \<Rightarrow> string \<Rightarrow> int \<times> int \<Rightarrow> string \<Rightarrow> int \<Rightarrow> string \<Rightarrow> bool \<Rightarrow> error + 'img" where
  "render_text_image lib text image_size font_name font_size position is_arabic =
     (case Image_new lib image_size (ColorName ''white'') of
        Inl e \<Rightarrow> Inl e
      | Inr img \<Rightarrow>
          (case truetype lib font_name font_size of
             Inl e \<Rightarrow> Inl e
           | Inr font \<Rightarrow>
               let bidi_text = (if is_arabic then get_display lib (reshape lib text) else text);
                   text_bbox = textbbox (0, 0) bidi_text font;
                   xy = draw_origin image_size text_bbox font position
               in Inr (draw_text lib img xy bidi_text font (ColorName ''black''))))"

text \<open>
  Where the ink of the text lies in the image that \<open>render_text_image\<close> returns: the box
  of the text at the origin it was drawn at.
\<close>

definition drawn_bbox :: "int \<times> int \<Rightarrow> font \<Rightarrow> string \<Rightarrow> string \<Rightarrow> bbox" where
  "drawn_bbox image_size font bidi_text position =
     textbbox (draw_origin image_size (textbbox (0, 0) bidi_text font) font position)
       bidi_text font"

subsection \<open>Enumerating the texts of the dataset\<close>

text \<open>
  \<open>itertools.product(alphabet, repeat=n)\<close>: the \<open>n\<close>-tuples over the alphabet, the
  rightmost position advancing fastest (\<open>aa, ab, ba, bb\<close> for \<open>ab\<close> and \<open>n = 2\<close>).
\<close>

fun product_repeat :: "'a list \<Rightarrow> nat \<Rightarrow> 'a list list" where
  "product_repeat xs 0 = [[]]"
| "product_repeat xs (Suc n) = concat (map (\<lambda>x. map ((#) x) (product_repeat xs n)) xs)"

text \<open>
  \<open>''.join(combination)\<close>: the elements of an alphabet are Python strings, and a tuple
  of them is joined without a separator.
\<close>

definition join :: "string list \<Rightarrow> string" where
  "join combination = concat combination"

text \<open>
  \<open>TextImageDataset.generate_all_combinations\<close>. \<open>range(1, max_length + 1)\<close> holds the
  lengths \<open>1, ..., max_length\<close> and is empty when \<open>max_length < 1\<close>; \<open>texts\<close> starts
  as \<open>['']\<close> and every joined tuple is appended in turn.
\<close>

definition generate_all_combinations :: "string list \<Rightarrow> int \<Rightarrow> string list" where
  "generate_all_combinations alph maxlen =
     [''''] @ concat (map (\<lambda>len. map join (product_repeat alph len))
                          [1 ..< nat (maxlen + 1)])"

subsection \<open>\<open>TextImageDataset\<close>\<close>

record dataset =
  alphabet :: "string list"
  max_length :: int
  font_name :: string
  font_size :: int
  image_size :: "int \<times> int"
  is_arabic :: bool
  texts :: "string list"

text \<open>\<open>__init__\<close>; the transform it builds is the constant \<open>transform\<close> below.\<close>

definition TextImageDataset ::
  "string list \<Rightarrow> int \<Rightarrow> string \<Rightarrow> int \<Rightarrow> int \<times> int \<Rightarrow> bool \<Rightarrow> dataset" where
  "TextImageDataset alph maxlen fname fsize isize arabic =
     \<lparr>alphabet = alph, max_length = maxlen, font_name = fname, font_size = fsize,
      image_size = isize, is_arabic = arabic,
      texts = generate_all_combinations alph maxlen\<rparr>"

text \<open>\<open>__len__\<close>.\<close>

definition len :: "dataset \<Rightarrow> nat" where
  "len self = length (texts self)"

text \<open>
  \<open>TextImageDataset.render_text_image\<close>. The canvas is created before the \<open>try\<close>
  (line 90), so its failure propagates. Of the failures of \<open>ImageFont.truetype\<close> only an
  \<open>IOError\<close> is caught and answered with the default font; any other propagates.
\<close>

definition dataset_render_text_image :: "'img pil \<Rightarrow> dataset \<Rightarrow> string \<Rightarrow> error + 'img" where
  "dataset_render_text_image lib self text =
     (case Image_new lib (image_size self) (ColorRGB 255 255 255) of
        Inl e \<Rightarrow> Inl e
      | Inr img \<Rightarrow>
          (case (case truetype lib (font_name self) (font_size self) of
                   Inl (IOError m) \<Rightarrow> Inr (load_default lib)
                 | Inl e \<Rightarrow> Inl e
                 | Inr font \<Rightarrow> Inr font) of
             Inl e \<Rightarrow> Inl e
           | Inr font \<Rightarrow>
               let bidi_text =
                     (if is_arabic self then get_display lib (reshape lib text) else text);
                   text_bbox = textbbox (0, 0) bidi_text font;
                   text_width = fst (snd (snd text_bbox)) - fst text_bbox;
                   text_height = snd (snd (snd text_bbox)) - fst (snd text_bbox);
                   text_position = ((fst (image_size self) - text_width) div 2,
                                    (snd (image_size self) - text_height) div 2)
               in Inr (draw_text lib img text_position bidi_text font (ColorRGB 0 0 0))))"

text \<open>
  \<open>transforms.ToTensor()\<close>: every byte of every channel becomes a number in \<open>[0, 1]\<close>.
\<close>

definition ToTensor :: "'img pil \<Rightarrow> 'img \<Rightarrow> real list list" where
  "ToTensor lib img = map (map (\<lambda>v. real (unat v) / 255)) (getdata lib img)"

text \<open>
  \<open>transforms.Normalize(mean, std)\<close>: channel \<open>c\<close> becomes \<open>(x - mean[c]) / std[c]\<close>; a
  one-element \<open>mean\<close> or \<open>std\<close>, as the dataset passes, is used for every channel.
\<close>

definition normalize_value :: "real \<Rightarrow> real \<Rightarrow> real \<Rightarrow> real" where
  "normalize_value mean std x = (x - mean) / std"

definition broadcast :: "real list \<Rightarrow> nat \<Rightarrow> real" where
  "broadcast m c = (if length m = 1 then hd m else m ! c)"

definition Normalize :: "real list \<Rightarrow> real list \<Rightarrow> real list list \<Rightarrow> real list list" where
  "Normalize mean std tensor =
     map (\<lambda>(c, channel). map (normalize_value (broadcast mean c) (broadcast std c)) channel)
       (enumerate 0 tensor)"

text \<open>\<open>self.transform\<close>: \<open>Compose([ToTensor(), Normalize((0.5,), (0.5,))])\<close>.\<close>

definition transform :: "'img pil \<Rightarrow> 'img \<Rightarrow> real list list" where
  "transform lib img = Normalize [0.5] [0.5] (ToTensor lib img)"

text \<open>
  \<open>__getitem__\<close>. \<open>self.texts[idx]\<close> is Python's list indexing: a negative index counts
  from the end, an index out of range raises \<open>IndexError\<close>.
\<close>

definition getitem :: "'img pil \<Rightarrow> dataset \<Rightarrow> int \<Rightarrow> error + (real list list \<times> string)" where
  "getitem lib self idx =
     (let n = int (length (texts self));
          j = (if idx < 0 then n + idx else idx)
      in if 0 \<le> j \<and> j < n then
           (let text = texts self ! nat j in
            case dataset_render_text_image lib self text of
              Inl e \<Rightarrow> Inl e
            | Inr img \<Rightarrow> Inr (transform lib img, text))
         else Inl IndexError)"

subsection \<open>The specification's vocabulary\<close>

text \<open>
  Following the specification: the size \<open>A^0 + A^1 + ... + A^L\<close> of the enumerated text
  set, the sum taken over the integers \<open>k\<close> with \<open>0 \<le> k \<le> L\<close>.
\<close>

definition enumerated_size :: "int \<Rightarrow> int \<Rightarrow> int" where
  "enumerated_size A L = (\<Sum>k = 0..L. A ^ nat k)"

text \<open>
  The enumeration order of the specification, on tuples of alphabet positions: shorter
  tuples first, tuples of one length in lexicographic order. \<open>index_tuples A L\<close> lists
  the tuples of positions \<open>0, ..., A - 1\<close> the way the dataset lists its texts.
\<close>

definition shortlex :: "nat list \<Rightarrow> nat list \<Rightarrow> bool" where
  "shortlex u v = (length u < length v \<or> (length u = length v \<and> u < v))"

definition index_tuples :: "nat \<Rightarrow> int \<Rightarrow> nat list list" where
  "index_tuples A L =
     [[]] @ concat (map (\<lambda>len. product_repeat [0 ..< A] len) [1 ..< nat (L + 1)])"

text \<open>The nine anchors that the docstring of \<open>render_text_image\<close> names.\<close>

definition named_anchors :: "string list" where
  "named_anchors =
     [''top-left'', ''top-center'', ''top-right'',
      ''center-left'', ''center'', ''center-right'',
      ''bottom-left'', ''bottom-center'', ''bottom-right'']"

text \<open>
  A box is centred in a canvas, up to the rounding of the division by two, when its left
  and right margins differ by at most one pixel, and its top and bottom margins too.
\<close>

definition centered :: "int \<times> int \<Rightarrow> bbox \<Rightarrow> bool" where
  "centered isize box =
     (case box of (l, t, r, b) \<Rightarrow>
        \<bar>l - (fst isize - r)\<bar> \<le> 1 \<and> \<bar>t - (snd isize - b)\<bar> \<le> 1)"

text \<open>The lowest row of a box lies within the canvas: the box ends at the canvas height.\<close>

definition bottom_inside :: "int \<times> int \<Rightarrow> bbox \<Rightarrow> bool" where
  "bottom_inside isize box = (case box of (l, t, r, b) \<Rightarrow> b \<le> snd isize)"

subsection \<open>Fixtures\<close>

text \<open>
  A small instance of the libraries, for evaluating the module on concrete inputs. Its
  fonts are monospaced, six pixels a glyph, with the baseline on the font's ascent; the
  ink of a full stop starts 16 rows below the ascender line, that of a lower-case letter
  9 rows, that of any other glyph 5 rows. An image is its size and the bytes of its
  three channels, and a text is drawn by filling its box. One font file exists. A canvas
  with a negative side, or a side of \<open>2^31\<close> pixels or more, is refused.
\<close>

definition glyph_top :: "char \<Rightarrow> int" where
  "glyph_top c =
     (if c = CHR ''.'' then 16
      else if c \<in> set ''abcdefghijklmnopqrstuvwxyz'' then 9 else 5)"

definition mono_font :: font where
  "mono_font =
     \<lparr>getbbox = (\<lambda>text. if text = [] then (0, 0, 0, 0)
                       else (0, fold min (map glyph_top text) 19, 6 * int (length text), 19)),
      getmetrics = (19, 5)\<rparr>"

definition tiny_font :: font where
  "tiny_font =
     \<lparr>getbbox = (\<lambda>text. if text = [] then (0, 0, 0, 0) else (0, 2, 6 * int (length text), 9)),
      getmetrics = (9, 2)\<rparr>"

type_synonym raster = "(int \<times> int) \<times> 8 word list list"

definition fill_box :: "raster \<Rightarrow> bbox \<Rightarrow> rgb \<Rightarrow> raster" where
  "fill_box img box fill =
     (case (img, box, fill) of (((w, h), channels), (l, t, r, b), (fr, fg, fb)) \<Rightarrow>
        ((w, h),
         map (\<lambda>(channel, c).
                map (\<lambda>(i, v). if l \<le> int i mod w \<and> int i mod w < r \<and>
                                  t \<le> int i div w \<and> int i div w < b
                               then of_nat c else v)
                  (enumerate 0 channel))
           (zip channels [fr, fg, fb])))"

definition test_lib :: "raster pil" where
  "test_lib =
     \<lparr>truetype = (\<lambda>name sz.
        if name \<noteq> ''mono.ttf'' then Inl (IOError ''cannot open resource'')
        else if sz \<le> 0 then Inl (ValueError ''font size must be greater than 0'')
        else Inr mono_font),
      load_default = tiny_font,
      colormap = (\<lambda>name. if name = ''white'' then (255, 255, 255) else (0, 0, 0)),
      new_raster = (\<lambda>(w, h) (r, g, b).
        if w < 0 \<or> h < 0 then Inl (ValueError ''Width and height must be >= 0'')
        else if 2 ^ 31 \<le> w \<or> 2 ^ 31 \<le> h then Inl (OverflowError ''size too large'')
        else Inr ((w, h), map (\<lambda>c. replicate (nat (w * h)) (of_nat c)) [r, g, b])),
      draw_raster = (\<lambda>img xy text font fill. fill_box img (textbbox xy text font) fill),
      reshape = (\<lambda>text. text),
      get_display = rev,
      getdata = snd\<rparr>"

subsection \<open>Enumeration: auxiliary facts\<close>

lemma product_repeat_Nil: "product_repeat [] n = (if n = 0 then [[]] else [])"
  by (cases n) simp_all

lemma concat_map_Nil: "concat (map (\<lambda>x. []) xs) = []"
  by (induction xs) simp_all

lemma generate_empty_alphabet: "generate_all_combinations [] maxlen = ['''']"
proof -
  have "map (\<lambda>len. map join (product_repeat [] len)) [1 ..< nat (maxlen + 1)]
      = map (\<lambda>len. []) [1 ..< nat (maxlen + 1)]"
    by (rule map_cong) (simp_all add: product_repeat_Nil)
  then show ?thesis
    by (simp add: generate_all_combinations_def concat_map_Nil)
qed

lemma length_product_repeat: "length (product_repeat xs n) = length xs ^ n"
proof (induction n)
  case 0
  show ?case by simp
next
  case (Suc n)
  have "length (concat (map (\<lambda>x. map ((#) x) (product_repeat xs n)) ys))
      = length ys * length xs ^ n" for ys
    by (induction ys) (simp_all add: Suc)
  then show ?case by simp
qed

lemma generate_nonpos: "maxlen \<le> 0 \<Longrightarrow> generate_all_combinations alph maxlen = ['''']"
  by (simp add: generate_all_combinations_def)

lemma range_Suc: "[1 ..< nat (int (Suc m) + 1)] = [1 ..< nat (int m + 1)] @ [Suc m]"
proof -
  have "nat (int (Suc m) + 1) = Suc (Suc m)" and "nat (int m + 1) = Suc m"
    by simp_all
  then show ?thesis by (simp del: upt_Suc add: upt_Suc_append)
qed

lemma generate_Suc:
  "generate_all_combinations alph (int (Suc m))
     = generate_all_combinations alph (int m) @ map join (product_repeat alph (Suc m))"
  unfolding generate_all_combinations_def range_Suc by simp

lemma length_generate_nat:
  "length (generate_all_combinations alph (int m)) = (\<Sum>k\<le>m. length alph ^ k)"
proof (induction m)
  case 0
  show ?case by (simp add: generate_nonpos)
next
  case (Suc m)
  show ?case
    unfolding generate_Suc by (simp add: Suc length_product_repeat del: product_repeat.simps)
qed

lemma sum_int_interval:
  assumes "0 \<le> L"
  shows "(\<Sum>k = 0..L. f (nat k)) = (\<Sum>k\<le>nat L. f k)"
proof -
  have "{0..L} = int ` {..nat L}"
  proof (rule set_eqI)
    fix x
    show "x \<in> {0..L} \<longleftrightarrow> x \<in> int ` {..nat L}"
    proof
      assume "x \<in> {0..L}"
      then have "x = int (nat x)" and "nat x \<in> {..nat L}" by auto
      then show "x \<in> int ` {..nat L}" by (rule image_eqI)
    next
      assume "x \<in> int ` {..nat L}"
      then show "x \<in> {0..L}" using assms by auto
    qed
  qed
  then show ?thesis by (simp add: sum.reindex)
qed

lemma length_generate:
  assumes "0 \<le> maxlen"
  shows "int (length (generate_all_combinations alph maxlen))
           = enumerated_size (int (length alph)) maxlen"
proof -
  have "generate_all_combinations alph maxlen = generate_all_combinations alph (int (nat maxlen))"
    using assms by simp
  then have "int (length (generate_all_combinations alph maxlen))
               = int (\<Sum>k\<le>nat maxlen. length alph ^ k)"
    by (simp only: length_generate_nat)
  also have "\<dots> = (\<Sum>k\<le>nat maxlen. int (length alph) ^ k)" by simp
  also have "\<dots> = (\<Sum>k = 0..maxlen. int (length alph) ^ nat k)"
    using sum_int_interval [OF assms, of "\<lambda>k. int (length alph) ^ k"] by simp
  finally show ?thesis by (simp add: enumerated_size_def)
qed

subsection \<open>Enumeration: the order of the tuples\<close>

lemma product_repeat_map: "product_repeat (map f xs) n = map (map f) (product_repeat xs n)"
proof (induction n)
  case 0
  show ?case by simp
next
  case (Suc n)
  have "concat (map (\<lambda>x. map ((#) x) (map (map f) P)) (map f ys))
      = map (map f) (concat (map (\<lambda>x. map ((#) x) P) ys))" for P ys
    by (induction ys) simp_all
  then show ?case by (simp add: Suc)
qed

lemma set_product_step:
  "set (concat (map (\<lambda>x. map ((#) x) P) xs)) = {x # p | x p. x \<in> set xs \<and> p \<in> set P}"
  by (induction xs) auto

lemma set_product_repeat:
  "set (product_repeat xs n) = {ys. length ys = n \<and> set ys \<subseteq> set xs}"
proof (induction n)
  case 0
  show ?case by auto
next
  case (Suc n)
  show ?case
  proof (rule set_eqI)
    fix ys
    show "ys \<in> set (product_repeat xs (Suc n))
            \<longleftrightarrow> ys \<in> {ys. length ys = Suc n \<and> set ys \<subseteq> set xs}"
      by (cases ys) (auto simp add: set_product_step Suc)
  qed
qed

lemma sorted_product_step:
  fixes xs :: "'a::order list"
  assumes "sorted_wrt (<) xs" and "sorted_wrt (<) P"
  shows "sorted_wrt (<) (concat (map (\<lambda>x. map ((#) x) P) xs))"
  using assms(1)
proof (induction xs)
  case Nil
  show ?case by simp
next
  case (Cons x xs)
  have "sorted_wrt (<) (map ((#) x) P)"
    using assms(2) by (simp add: sorted_wrt_map)
  moreover have "u < v" if "u \<in> set (map ((#) x) P)"
    and "v \<in> set (concat (map (\<lambda>x. map ((#) x) P) xs))" for u v
    using that Cons.prems by (auto simp add: set_product_step)
  ultimately show ?case
    using Cons by (simp add: sorted_wrt_append)
qed

lemma sorted_product_repeat:
  fixes xs :: "'a::order list"
  assumes "sorted_wrt (<) xs"
  shows "sorted_wrt (<) (product_repeat xs n)"
  by (induction n) (simp_all add: sorted_product_step assms)

lemma index_tuples_nonpos: "L \<le> 0 \<Longrightarrow> index_tuples A L = [[]]"
  by (simp add: index_tuples_def)

lemma index_tuples_Suc:
  "index_tuples A (int (Suc m)) = index_tuples A (int m) @ product_repeat [0 ..< A] (Suc m)"
  unfolding index_tuples_def range_Suc by simp

lemma index_tuples_nat: "index_tuples A L = index_tuples A (int (nat L))"
  by (cases "0 \<le> L") (simp_all add: index_tuples_def)

lemma set_index_tuples_nat:
  "set (index_tuples A (int m)) = {t. length t \<le> m \<and> set t \<subseteq> {0 ..< A}}"
proof (induction m)
  case 0
  show ?case by (auto simp add: index_tuples_nonpos)
next
  case (Suc m)
  show ?case
    unfolding index_tuples_Suc
    by (auto simp add: Suc set_product_repeat le_Suc_eq simp del: product_repeat.simps)
qed

lemma set_index_tuples:
  "set (index_tuples A L) = {t. length t \<le> nat L \<and> set t \<subseteq> {0 ..< A}}"
  by (subst index_tuples_nat) (rule set_index_tuples_nat)

lemma sorted_index_tuples_nat: "sorted_wrt shortlex (index_tuples A (int m))"
proof (induction m)
  case 0
  show ?case by (simp add: index_tuples_nonpos)
next
  case (Suc m)
  have "sorted_wrt (<) (product_repeat [0 ..< A] (Suc m))"
    by (rule sorted_product_repeat) (simp add: sorted_wrt_iff_nth_less)
  then have "sorted_wrt shortlex (product_repeat [0 ..< A] (Suc m))"
    by (rule sorted_wrt_mono_rel [rotated])
       (simp add: shortlex_def set_product_repeat del: product_repeat.simps)
  moreover have "shortlex u v" if "u \<in> set (index_tuples A (int m))"
    and "v \<in> set (product_repeat [0 ..< A] (Suc m))" for u v
    using that
    by (simp add: set_index_tuples_nat set_product_repeat shortlex_def
        del: product_repeat.simps)
  ultimately show ?case
    unfolding index_tuples_Suc using Suc by (simp add: sorted_wrt_append del: product_repeat.simps)
qed

lemma sorted_index_tuples: "sorted_wrt shortlex (index_tuples A L)"
  by (subst index_tuples_nat) (rule sorted_index_tuples_nat)

lemma generate_by_index:
  "generate_all_combinations alph L
     = map (\<lambda>t. join (map ((!) alph) t)) (index_tuples (length alph) L)"
proof -
  have "map join (product_repeat alph n)
      = map (\<lambda>t. join (map ((!) alph) t)) (product_repeat [0 ..< length alph] n)" for n
  proof -
    have "product_repeat alph n = product_repeat (map ((!) alph) [0 ..< length alph]) n"
      by (simp only: map_nth)
    then show ?thesis by (simp only: product_repeat_map map_map comp_def)
  qed
  then show ?thesis
    by (simp add: generate_all_combinations_def index_tuples_def map_concat comp_def join_def)
qed

lemma join_nonempty:
  assumes "[] \<notin> set alph" and "t \<in> set (product_repeat alph (Suc n))"
  shows "join t \<noteq> []"
proof -
  from assms(2) have "length t = Suc n" and "set t \<subseteq> set alph"
    by (simp_all add: set_product_repeat del: product_repeat.simps)
  then obtain x t' where "t = x # t'" and "x \<in> set alph"
    by (cases t) auto
  with assms(1) show ?thesis by (auto simp add: join_def)
qed

lemma empty_once_nat:
  assumes "[] \<notin> set alph"
  shows "count_list (generate_all_combinations alph (int m)) [] = 1"
proof (induction m)
  case 0
  show ?case by (simp add: generate_nonpos)
next
  case (Suc m)
  have "[] \<notin> set (map join (product_repeat alph (Suc m)))"
  proof
    assume "[] \<in> set (map join (product_repeat alph (Suc m)))"
    then obtain t where "t \<in> set (product_repeat alph (Suc m))" and "join t = []"
      by (auto simp del: product_repeat.simps)
    with join_nonempty [OF assms] show False by blast
  qed
  then have "count_list (map join (product_repeat alph (Suc m))) [] = 0"
    by (simp add: count_list_0_iff del: product_repeat.simps)
  then show ?case
    unfolding generate_Suc by (simp add: Suc del: product_repeat.simps)
qed

lemma empty_once:
  assumes "[] \<notin> set alph"
  shows "count_list (generate_all_combinations alph L) [] = 1"
proof (cases "0 \<le> L")
  case True
  then have "generate_all_combinations alph L = generate_all_combinations alph (int (nat L))"
    by simp
  then show ?thesis by (simp only: empty_once_nat [OF assms])
next
  case False
  then show ?thesis by (simp add: generate_nonpos)
qed

lemma generate_first: "generate_all_combinations alph L ! 0 = []"
  by (simp add: generate_all_combinations_def)

subsection \<open>The renderer: where the text is drawn\<close>

lemma draw_origin_unknown:
  assumes "position \<notin> set named_anchors"
  shows "draw_origin isize box font position = (0, 0)"
  using assms by (cases box) (simp add: draw_origin_def named_anchors_def)

lemma draw_origin_top_left: "draw_origin isize box font ''top-left'' = (0, 0)"
  by (cases box) (simp add: draw_origin_def)

lemma draw_origin_center:
  "draw_origin (W, H) (l, t, r, b) font ''center'' = ((W - (r - l)) div 2, (H - (b - t)) div 2)"
  by (simp add: draw_origin_def)

text \<open>
  The bottom anchors: the table value \<open>H - text_height\<close> less the descent. Every other
  position: the origin does not depend on the font's metrics.
\<close>

lemma draw_origin_bottom:
  assumes "position \<in> set [''bottom-left'', ''bottom-center'', ''bottom-right'']"
  shows "snd (draw_origin (W, H) (l, t, r, b) font position)
           = H - (b - t) - snd (getmetrics font)"
  using assms by (auto simp add: draw_origin_def)

lemma draw_origin_no_descent:
  assumes "position \<notin> set [''bottom-left'', ''bottom-center'', ''bottom-right'']"
  shows "draw_origin isize box (font\<lparr>getmetrics := m\<rparr>) position
           = draw_origin isize box font position"
  using assms by (cases box) (simp add: draw_origin_def Let_def)

lemma render_text_image_loaded:
  assumes "Image_new lib isize (ColorName ''white'') = Inr img0"
      and "truetype lib fname fsize = Inr font"
  shows "render_text_image lib text isize fname fsize position arabic =
    Inr (draw_text lib img0
          (draw_origin isize
             (textbbox (0, 0) (if arabic then get_display lib (reshape lib text) else text) font)
             font position)
          (if arabic then get_display lib (reshape lib text) else text) font
          (ColorName ''black''))"
  using assms by (simp add: render_text_image_def Let_def)

lemma render_text_image_failed:
  "Image_new lib isize (ColorName ''white'') = Inr img0 \<Longrightarrow>
   truetype lib fname fsize = Inl e \<Longrightarrow>
   render_text_image lib text isize fname fsize position arabic = Inl e"
  by (simp add: render_text_image_def Let_def)

lemma render_text_image_no_canvas:
  "Image_new lib isize (ColorName ''white'') = Inl e \<Longrightarrow>
   render_text_image lib text isize fname fsize position arabic = Inl e"
  by (simp add: render_text_image_def)

text \<open>
  The margins of the drawn box under \<open>center\<close>: they differ by twice the offset of the
  font's box from the drawing origin, less the rounding. The box is centred when that
  offset is zero.
\<close>

lemma center_margins:
  assumes "getbbox font text = (l, t, r, b)"
      and "drawn_bbox (W, H) font text ''center'' = (l', t', r', b')"
  shows "l' - (W - r') = 2 * l - (W - (r - l)) mod 2"
    and "t' - (H - b') = 2 * t - (H - (b - t)) mod 2"
  using assms by (auto simp add: drawn_bbox_def textbbox_def draw_origin_def) presburger+

lemma centered_when_box_at_origin:
  assumes "getbbox font text = (0, 0, r, b)"
  shows "centered (W, H) (drawn_bbox (W, H) font text ''center'')"
  using assms by (simp add: drawn_bbox_def textbbox_def draw_origin_def centered_def) presburger

text \<open>
  The lower edge of the drawn box under a bottom anchor: the canvas height, plus the
  offset of the ink below the ascender line, less the descent.
\<close>

lemma bottom_edge:
  assumes "position \<in> set [''bottom-left'', ''bottom-center'', ''bottom-right'']"
      and "getbbox font text = (l, t, r, b)"
  shows "snd (snd (snd (drawn_bbox (W, H) font text position))) = H + t - snd (getmetrics font)"
  using assms by (auto simp add: drawn_bbox_def textbbox_def draw_origin_def)

lemma mono_font_A: "getbbox mono_font ''A'' = (0, 5, 6, 19)"
  by (simp add: mono_font_def glyph_top_def)

lemma mono_font_a: "getbbox mono_font ''a'' = (0, 9, 6, 19)"
  by (simp add: mono_font_def glyph_top_def)

subsection \<open>The dataset: rendering, normalising, indexing\<close>

lemma dataset_render_loaded:
  assumes "Image_new lib (image_size self) (ColorRGB 255 255 255) = Inr img0"
      and "truetype lib (font_name self) (font_size self) = Inr font"
  shows "dataset_render_text_image lib self text =
    Inr (draw_text lib img0
          (draw_origin (image_size self)
             (textbbox (0, 0)
                (if is_arabic self then get_display lib (reshape lib text) else text) font)
             font ''center'')
          (if is_arabic self then get_display lib (reshape lib text) else text) font
          (ColorRGB 0 0 0))"
proof -
  obtain l t r b where bb:
    "textbbox (0, 0) (if is_arabic self then get_display lib (reshape lib text) else text) font
       = (l, t, r, b)"
    by (metis prod_cases4)
  show ?thesis
    using assms bb by (auto simp add: dataset_render_text_image_def Let_def draw_origin_def)
qed

lemma dataset_render_default:
  assumes "Image_new lib (image_size self) (ColorRGB 255 255 255) = Inr img0"
      and "truetype lib (font_name self) (font_size self) = Inl (IOError m)"
  shows "dataset_render_text_image lib self text =
    Inr (draw_text lib img0
          (draw_origin (image_size self)
             (textbbox (0, 0)
                (if is_arabic self then get_display lib (reshape lib text) else text)
                (load_default lib))
             (load_default lib) ''center'')
          (if is_arabic self then get_display lib (reshape lib text) else text)
          (load_default lib) (ColorRGB 0 0 0))"
proof -
  obtain l t r b where bb:
    "textbbox (0, 0) (if is_arabic self then get_display lib (reshape lib text) else text)
       (load_default lib) = (l, t, r, b)"
    by (metis prod_cases4)
  show ?thesis
    using assms bb by (auto simp add: dataset_render_text_image_def Let_def draw_origin_def)
qed

lemma dataset_render_failed:
  assumes "Image_new lib (image_size self) (ColorRGB 255 255 255) = Inr img0"
      and "truetype lib (font_name self) (font_size self) = Inl e"
      and "\<forall>m. e \<noteq> IOError m"
  shows "dataset_render_text_image lib self text = Inl e"
  using assms by (cases e) (simp_all add: dataset_render_text_image_def)

lemma dataset_render_no_canvas:
  "Image_new lib (image_size self) (ColorRGB 255 255 255) = Inl e \<Longrightarrow>
   dataset_render_text_image lib self text = Inl e"
  by (simp add: dataset_render_text_image_def)

lemma normalize_half: "normalize_value 0.5 0.5 x = 2 * x - 1"
  by (simp add: normalize_value_def field_simps)





lemma getitem_valid:
  assumes "0 \<le> idx" and "idx < int (len self)"
  shows "getitem lib self idx =
    (case dataset_render_text_image lib self (texts self ! nat idx) of
       Inl e \<Rightarrow> Inl e
     | Inr img \<Rightarrow> Inr (transform lib img, texts self ! nat idx))"
  using assms by (simp add: getitem_def len_def Let_def)

lemma getitem_from_end:
  assumes "- int (len self) \<le> idx" and "idx < 0"
  shows "getitem lib self idx =
    (case dataset_render_text_image lib self (texts self ! nat (int (len self) + idx)) of
       Inl e \<Rightarrow> Inl e
     | Inr img \<Rightarrow> Inr (transform lib img, texts self ! nat (int (len self) + idx)))"
  using assms by (simp add: getitem_def len_def Let_def split: sum.splits)

lemma getitem_in_range:
  assumes "- int (len self) \<le> idx" and "idx < int (len self)"
  shows "getitem lib self idx =
    (case dataset_render_text_image lib self
            (texts self ! nat (if idx < 0 then int (len self) + idx else idx)) of
       Inl e \<Rightarrow> Inl e
     | Inr img \<Rightarrow>
         Inr (transform lib img,
              texts self ! nat (if idx < 0 then int (len self) + idx else idx)))"
  using assms by (simp add: getitem_def len_def Let_def split: sum.splits)

lemma getitem_out_of_range:
  assumes "idx < - int (len self) \<or> int (len self) \<le> idx"
  shows "getitem lib self idx = Inl IndexError"
  using assms by (auto simp add: getitem_def len_def Let_def)

section \<open>The claims\<close>

text \<open>
  C1, as amended. For every alphabet of size \<open>A\<close> and every \<open>max_length\<close> \<open>L \<ge> 0\<close>, the
  length of the dataset is \<open>A^0 + A^1 + ... + A^L\<close>, the number of tuples of length \<open>0\<close>
  to \<open>L\<close> over the alphabet.
\<close>

theorem dataset_length_sum:
  "0 \<le> maxlen \<Longrightarrow>
     int (len (TextImageDataset alph maxlen fname fsize isize arabic))
       = enumerated_size (int (length alph)) maxlen"
  by (simp add: len_def TextImageDataset_def length_generate)

theorem dataset_length_sum_witness:
  "(0::int) \<le> 2 \<and>
   int (len (TextImageDataset [''a'', ''b''] 2 ''mono.ttf'' 20 (64, 32) False))
     = enumerated_size (int (length [''a'', ''b''])) 2 \<and>
   len (TextImageDataset [''a'', ''b''] 2 ''mono.ttf'' 20 (64, 32) False) = 7"
  using dataset_length_sum [of 2 "[''a'', ''b'']" "''mono.ttf''" 20 "(64, 32)" False]
  by (simp add: len_def TextImageDataset_def generate_all_combinations_def
      eval_nat_numeral join_def)

text \<open>
  C1 as the specification states it, for every \<open>max_length\<close>, fails for a negative one:
  the loop over the lengths is empty, the dataset holds the empty string, and the sum
  over no \<open>k\<close> is \<open>0\<close>.
\<close>

theorem dataset_length_negative_counterexample:
  "int (len (TextImageDataset [''a'', ''b''] (- 1) ''mono.ttf'' 20 (64, 32) False)) = 1 \<and>
   enumerated_size (int (length [''a'', ''b''])) (- 1) = 0"
  by (simp add: len_def TextImageDataset_def generate_nonpos enumerated_size_def)

text \<open>
  C2. For every anchor string that is not one of the nine named anchors,
  \<open>render_text_image\<close> returns what it returns for \<open>top-left\<close>. The anchor raises no
  error: where the canvas is created and the font loads, the result is the image with the
  text drawn from the origin \<open>(0, 0)\<close>. The origin is \<open>(0, 0)\<close> for every measured box
  and every font, whatever its descent is (no descent adjustment).
\<close>

theorem unknown_anchor_is_top_left:
  assumes "position \<notin> set named_anchors"
  shows "render_text_image lib text isize fname fsize position arabic
           = render_text_image lib text isize fname fsize ''top-left'' arabic \<and>
         draw_origin isize box font position = (0, 0) \<and>
         (Image_new lib isize (ColorName ''white'') = Inr img0 \<and>
          truetype lib fname fsize = Inr font \<longrightarrow>
            render_text_image lib text isize fname fsize position arabic
              = Inr (draw_text lib img0 (0, 0)
                      (if arabic then get_display lib (reshape lib text) else text) font
                      (ColorName ''black'')))"
proof -
  have o: "draw_origin isize bx f position = (0, 0)"
    and o': "draw_origin isize bx f ''top-left'' = (0, 0)" for bx f
    by (simp_all add: draw_origin_unknown [OF assms] draw_origin_top_left)
  have "render_text_image lib text isize fname fsize position arabic
           = render_text_image lib text isize fname fsize ''top-left'' arabic"
  proof (cases "Image_new lib isize (ColorName ''white'')")
    case (Inl e)
    then show ?thesis by (simp add: render_text_image_no_canvas)
  next
    case (Inr img)
    show ?thesis
      by (cases "truetype lib fname fsize")
         (simp_all add: render_text_image_failed [OF Inr] render_text_image_loaded [OF Inr] o o')
  qed
  moreover have "Image_new lib isize (ColorName ''white'') = Inr img0 \<and>
          truetype lib fname fsize = Inr font \<longrightarrow>
            render_text_image lib text isize fname fsize position arabic
              = Inr (draw_text lib img0 (0, 0)
                      (if arabic then get_display lib (reshape lib text) else text) font
                      (ColorName ''black''))"
    by (auto simp add: render_text_image_loaded o)
  ultimately show ?thesis
    using o [of box font] by blast
qed

theorem unknown_anchor_is_top_left_witness:
  "''middle'' \<notin> set named_anchors \<and>
   render_text_image test_lib ''ab'' (16, 24) ''mono.ttf'' 20 ''middle'' False
     = render_text_image test_lib ''ab'' (16, 24) ''mono.ttf'' 20 ''top-left'' False \<and>
   draw_origin (16, 24) (0, 9, 12, 19) mono_font ''middle'' = (0, 0) \<and>
   truetype test_lib ''mono.ttf'' 20 = Inr mono_font \<and>
   (\<exists>img0. Image_new test_lib (16, 24) (ColorName ''white'') = Inr img0 \<and>
      render_text_image test_lib ''ab'' (16, 24) ''mono.ttf'' 20 ''middle'' False
        = Inr (draw_text test_lib img0 (0, 0) ''ab'' mono_font (ColorName ''black'')))"
proof -
  have h: "''middle'' \<notin> set named_anchors" by (simp add: named_anchors_def)
  obtain img0 where i: "Image_new test_lib (16, 24) (ColorName ''white'') = Inr img0"
    by (simp add: Image_new_def test_lib_def getcolor_def)
  have f: "truetype test_lib ''mono.ttf'' 20 = Inr mono_font"
    by (simp add: test_lib_def)
  note u = unknown_anchor_is_top_left [OF h, of test_lib "''ab''" "(16, 24)" "''mono.ttf''" 20
      False "(0, 9, 12, 19)" mono_font img0, unfolded if_False]
  from u h i f show ?thesis by blast
qed

text \<open>
  C3, at an input where the code departs from it. With anchor \<open>center\<close> the text
  \<open>A\<close> is measured as the box \<open>(0, 5, 6, 19)\<close>, six pixels wide and fourteen high, and
  is drawn from the origin \<open>(47, 43)\<close> of a 100 by 100 canvas. Its ink then fills the box
  \<open>(47, 48, 53, 62)\<close>: 48 rows above it and 38 below, so the box is not centred. The
  origin is computed from the extents of the measured box alone; the offset of that box
  from the origin it was measured at is left out.
\<close>

theorem center_not_centered:
  "truetype test_lib ''mono.ttf'' 20 = Inr mono_font \<and>
   textbbox (0, 0) ''A'' mono_font = (0, 5, 6, 19) \<and>
   draw_origin (100, 100) (0, 5, 6, 19) mono_font ''center'' = (47, 43) \<and>
   drawn_bbox (100, 100) mono_font ''A'' ''center'' = (47, 48, 53, 62) \<and>
   \<not> centered (100, 100) (drawn_bbox (100, 100) mono_font ''A'' ''center'')"
  by (simp add: test_lib_def drawn_bbox_def textbbox_def mono_font_A draw_origin_def
      centered_def)

text \<open>
  C4, at an input where the code departs from it. With anchor \<open>bottom-left\<close> on a canvas
  of height 50, the text \<open>a\<close> (measured box \<open>(0, 9, 6, 19)\<close>, font descent 5) is drawn
  from \<open>y = 50 - 10 - 5\<close>, as the claim's formula says, and its ink fills the rows 44 to
  53: the lowest four rows lie below the canvas. The descent stands in for the offset of
  the measured box, which is larger here.
\<close>

theorem bottom_clipped:
  "truetype test_lib ''mono.ttf'' 20 = Inr mono_font \<and>
   getmetrics mono_font = (19, 5) \<and>
   textbbox (0, 0) ''a'' mono_font = (0, 9, 6, 19) \<and>
   draw_origin (100, 50) (0, 9, 6, 19) mono_font ''bottom-left'' = (0, 50 - 10 - 5) \<and>
   drawn_bbox (100, 50) mono_font ''a'' ''bottom-left'' = (0, 44, 6, 54) \<and>
   \<not> bottom_inside (100, 50) (drawn_bbox (100, 50) mono_font ''a'' ''bottom-left'')"
  by (simp add: test_lib_def drawn_bbox_def textbbox_def mono_font_a draw_origin_def
      bottom_inside_def mono_font_def glyph_top_def)

text \<open>
  C5. Where the colour names \<open>white\<close> and \<open>black\<close> denote \<open>(255, 255, 255)\<close> and
  \<open>(0, 0, 0)\<close> and the font file loads, \<open>TextImageDataset.render_text_image(text)\<close>
  returns the image that \<open>render_text_image\<close> returns for the dataset's image size, font,
  font size and script flag with the anchor \<open>center\<close>.
\<close>

theorem dataset_render_is_center:
  assumes "colormap lib ''white'' = (255, 255, 255)"
      and "colormap lib ''black'' = (0, 0, 0)"
      and "truetype lib (font_name self) (font_size self) = Inr font"
  shows "dataset_render_text_image lib self text
           = render_text_image lib text (image_size self) (font_name self) (font_size self)
               ''center'' (is_arabic self)"
proof (cases "Image_new lib (image_size self) (ColorRGB 255 255 255)")
  case (Inl e)
  with assms(1) have "Image_new lib (image_size self) (ColorName ''white'') = Inl e"
    by (simp add: Image_new_def getcolor_def)
  with Inl show ?thesis
    by (simp add: render_text_image_no_canvas dataset_render_no_canvas)
next
  case (Inr img0)
  with assms(1) have w: "Image_new lib (image_size self) (ColorName ''white'') = Inr img0"
    by (simp add: Image_new_def getcolor_def)
  show ?thesis
    using assms(2)
    by (simp add: dataset_render_loaded [OF Inr assms(3)] render_text_image_loaded [OF w assms(3)]
        draw_text_def getcolor_def)
qed

theorem dataset_render_is_center_witness:
  "colormap test_lib ''white'' = (255, 255, 255) \<and>
   colormap test_lib ''black'' = (0, 0, 0) \<and>
   truetype test_lib (font_name (TextImageDataset [''a'', ''b''] 2 ''mono.ttf'' 20 (16, 24) True))
     (font_size (TextImageDataset [''a'', ''b''] 2 ''mono.ttf'' 20 (16, 24) True))
     = Inr mono_font \<and>
   dataset_render_text_image test_lib
       (TextImageDataset [''a'', ''b''] 2 ''mono.ttf'' 20 (16, 24) True) ''ab''
     = render_text_image test_lib ''ab'' (16, 24) ''mono.ttf'' 20 ''center'' True"
proof -
  let ?ds = "TextImageDataset [''a'', ''b''] 2 ''mono.ttf'' 20 (16, 24) True"
  have w: "colormap test_lib ''white'' = (255, 255, 255)"
    and b: "colormap test_lib ''black'' = (0, 0, 0)"
    and f: "truetype test_lib (font_name ?ds) (font_size ?ds) = Inr mono_font"
    by (simp_all add: test_lib_def TextImageDataset_def)
  have s: "image_size ?ds = (16, 24)" "font_name ?ds = ''mono.ttf''" "font_size ?ds = 20"
    "is_arabic ?ds = True"
    by (simp_all add: TextImageDataset_def)
  from dataset_render_is_center [OF w b f, of "''ab''"] w b f
  show ?thesis unfolding s by blast
qed

text \<open>
  C6. The texts of a dataset are a function of the alphabet and of \<open>max_length\<close> alone.
  They are the tuples of alphabet positions, each joined into a string, in the order
  shorter first and lexicographic within one length; every tuple of length at most
  \<open>max_length\<close> is among them. The text at index 0 is the empty string, and where no
  alphabet symbol is itself empty (as with an alphabet of characters) the empty string
  occurs exactly once.
\<close>

theorem enumeration_order:
  assumes "'''' \<notin> set alph"
  shows "texts (TextImageDataset alph maxlen fname fsize isize arabic)
           = map (\<lambda>t. join (map ((!) alph) t)) (index_tuples (length alph) maxlen) \<and>
         sorted_wrt shortlex (index_tuples (length alph) maxlen) \<and>
         set (index_tuples (length alph) maxlen)
           = {t. length t \<le> nat maxlen \<and> set t \<subseteq> {0 ..< length alph}} \<and>
         texts (TextImageDataset alph maxlen fname fsize isize arabic) ! 0 = '''' \<and>
         count_list (texts (TextImageDataset alph maxlen fname fsize isize arabic)) '''' = 1 \<and>
         texts (TextImageDataset alph maxlen fname fsize isize arabic)
           = texts (TextImageDataset alph maxlen fname' fsize' isize' arabic')"
proof -
  have t: "texts (TextImageDataset alph maxlen f s i a) = generate_all_combinations alph maxlen"
    for f s i a
    by (simp add: TextImageDataset_def)
  show ?thesis
    unfolding t
    using generate_by_index [of alph maxlen] sorted_index_tuples [of "length alph" maxlen]
      set_index_tuples [of "length alph" maxlen] generate_first [of alph maxlen]
      empty_once [OF assms, of maxlen]
    by simp
qed

theorem enumeration_order_witness:
  "'''' \<notin> set [''a'', ''b''] \<and>
   texts (TextImageDataset [''a'', ''b''] 2 ''mono.ttf'' 20 (16, 24) False)
     = ['''', ''a'', ''b'', ''aa'', ''ab'', ''ba'', ''bb''] \<and>
   index_tuples 2 2 = [[], [0], [1], [0, 0], [0, 1], [1, 0], [1, 1]] \<and>
   sorted_wrt shortlex (index_tuples (length [''a'', ''b'']) 2) \<and>
   count_list (texts (TextImageDataset [''a'', ''b''] 2 ''mono.ttf'' 20 (16, 24) False)) '''' = 1"
proof -
  have h: "'''' \<notin> set [''a'', ''b'']" by simp
  have e: "texts (TextImageDataset [''a'', ''b''] 2 ''mono.ttf'' 20 (16, 24) False)
             = ['''', ''a'', ''b'', ''aa'', ''ab'', ''ba'', ''bb'']"
    by (simp add: TextImageDataset_def generate_all_combinations_def eval_nat_numeral join_def)
  have i: "index_tuples 2 2 = [[], [0], [1], [0, 0], [0, 1], [1, 0], [1, 1]]"
    by (simp add: index_tuples_def eval_nat_numeral)
  from enumeration_order [OF h, of 2 "''mono.ttf''" 20 "(16, 24)" False] h e i
  show ?thesis by blast
qed

text \<open>
  C7, as amended. When the canvas is created and loading the font file fails with an
  \<open>IOError\<close>, \<open>render_text_image\<close> returns that failure, and
  \<open>TextImageDataset.render_text_image\<close> returns the image drawn with the default font.
  There are further error paths: a canvas size that the imaging library refuses fails in
  both functions, before the font is loaded; a font-loading failure that is no \<open>IOError\<close>
  is returned by the dataset's rendering too; and \<open>__getitem__\<close> fails with \<open>IndexError\<close>
  on every index out of range.
\<close>

theorem font_failure_paths:
  "(Image_new lib (image_size self) (ColorName ''white'') = Inr imga \<and>
    truetype lib (font_name self) (font_size self) = Inl (IOError m) \<longrightarrow>
      render_text_image lib text (image_size self) (font_name self) (font_size self)
        position (is_arabic self) = Inl (IOError m)) \<and>
   (Image_new lib (image_size self) (ColorRGB 255 255 255) = Inr imgb \<and>
    truetype lib (font_name self) (font_size self) = Inl (IOError m) \<longrightarrow>
      dataset_render_text_image lib self text =
        Inr (draw_text lib imgb
          (draw_origin (image_size self)
             (textbbox (0, 0)
                (if is_arabic self then get_display lib (reshape lib text) else text)
                (load_default lib))
             (load_default lib) ''center'')
          (if is_arabic self then get_display lib (reshape lib text) else text)
          (load_default lib) (ColorRGB 0 0 0))) \<and>
   (Image_new lib (image_size self) (ColorName ''white'') = Inl ea \<longrightarrow>
      render_text_image lib text (image_size self) (font_name self) (font_size self)
        position (is_arabic self) = Inl ea) \<and>
   (Image_new lib (image_size self) (ColorRGB 255 255 255) = Inl eb \<longrightarrow>
      dataset_render_text_image lib self text = Inl eb) \<and>
   (Image_new lib (image_size self) (ColorRGB 255 255 255) = Inr imgb \<and>
    truetype lib (font_name self) (font_size self) = Inl ec \<and> (\<forall>m'. ec \<noteq> IOError m') \<longrightarrow>
      dataset_render_text_image lib self text = Inl ec) \<and>
   (idx < - int (len self) \<or> int (len self) \<le> idx \<longrightarrow> getitem lib self idx = Inl IndexError)"
  by (simp add: render_text_image_failed render_text_image_no_canvas dataset_render_default
      dataset_render_no_canvas dataset_render_failed getitem_out_of_range)

theorem font_failure_paths_witness:
  "truetype test_lib ''missing.ttf'' 20 = Inl (IOError ''cannot open resource'') \<and>
   (\<exists>img1. Image_new test_lib (16, 24) (ColorName ''white'') = Inr img1) \<and>
   render_text_image test_lib ''ab'' (16, 24) ''missing.ttf'' 20 ''center'' False
     = Inl (IOError ''cannot open resource'') \<and>
   (\<exists>img. dataset_render_text_image test_lib
      (TextImageDataset [''a'', ''b''] 2 ''missing.ttf'' 20 (16, 24) False) ''ab'' = Inr img) \<and>
   Image_new test_lib (- 1, 24) (ColorName ''white'')
     = Inl (ValueError ''Width and height must be >= 0'') \<and>
   render_text_image test_lib ''ab'' (- 1, 24) ''mono.ttf'' 20 ''center'' False
     = Inl (ValueError ''Width and height must be >= 0'') \<and>
   dataset_render_text_image test_lib
       (TextImageDataset [''a'', ''b''] 2 ''mono.ttf'' 20 (- 1, 24) False) ''ab''
     = Inl (ValueError ''Width and height must be >= 0'') \<and>
   dataset_render_text_image test_lib
       (TextImageDataset [''a'', ''b''] 2 ''mono.ttf'' 0 (16, 24) False) ''ab''
     = Inl (ValueError ''font size must be greater than 0'') \<and>
   getitem test_lib (TextImageDataset [''a'', ''b''] 2 ''mono.ttf'' 20 (16, 24) False) 7
     = Inl IndexError"
proof -
  let ?missing = "TextImageDataset [''a'', ''b''] 2 ''missing.ttf'' 20 (16, 24) False"
  let ?negative = "TextImageDataset [''a'', ''b''] 2 ''mono.ttf'' 20 (- 1, 24) False"
  let ?zero = "TextImageDataset [''a'', ''b''] 2 ''mono.ttf'' 0 (16, 24) False"
  let ?good = "TextImageDataset [''a'', ''b''] 2 ''mono.ttf'' 20 (16, 24) False"
  let ?v = "ValueError ''Width and height must be >= 0''"
  let ?z = "ValueError ''font size must be greater than 0''"
  have s1: "image_size ?missing = (16, 24)" "font_name ?missing = ''missing.ttf''"
    "font_size ?missing = 20" "is_arabic ?missing = False"
    and s2: "image_size ?negative = (- 1, 24)" "font_name ?negative = ''mono.ttf''"
    "font_size ?negative = 20" "is_arabic ?negative = False"
    and s3: "image_size ?zero = (16, 24)" "font_name ?zero = ''mono.ttf''"
    "font_size ?zero = 0"
    by (simp_all add: TextImageDataset_def)
  have f: "truetype test_lib ''missing.ttf'' 20 = Inl (IOError ''cannot open resource'')"
    and z: "truetype test_lib ''mono.ttf'' 0 = Inl ?z"
    by (simp_all add: test_lib_def)
  obtain img1 where i1: "Image_new test_lib (16, 24) (ColorName ''white'') = Inr img1"
    by (simp add: Image_new_def test_lib_def getcolor_def)
  obtain img2 where i2: "Image_new test_lib (16, 24) (ColorRGB 255 255 255) = Inr img2"
    by (simp add: Image_new_def test_lib_def getcolor_def)
  have n1: "Image_new test_lib (- 1, 24) (ColorName ''white'') = Inl ?v"
    and n2: "Image_new test_lib (- 1, 24) (ColorRGB 255 255 255) = Inl ?v"
    by (simp_all add: Image_new_def test_lib_def getcolor_def)
  have l: "len ?good = 7"
    by (simp add: len_def TextImageDataset_def generate_all_combinations_def eval_nat_numeral)
  note a = font_failure_paths [of test_lib ?missing img1 "''cannot open resource''" "''ab''"
      "''center''" img2, unfolded s1]
  note b = font_failure_paths [of test_lib ?negative _ _ "''ab''" "''center''" _ ?v ?v,
      unfolded s2]
  note c = font_failure_paths [of test_lib ?zero _ _ "''ab''" _ img2 _ _ ?z, unfolded s3]
  note d = font_failure_paths [of test_lib ?good _ _ _ _ _ _ _ _ 7, unfolded l]
  have r1: "render_text_image test_lib ''ab'' (16, 24) ''missing.ttf'' 20 ''center'' False
     = Inl (IOError ''cannot open resource'')"
    using a i1 f by blast
  have r2: "\<exists>img. dataset_render_text_image test_lib ?missing ''ab'' = Inr img"
    using a i2 f by blast
  have r3: "render_text_image test_lib ''ab'' (- 1, 24) ''mono.ttf'' 20 ''center'' False = Inl ?v"
    using b n1 by blast
  have r4: "dataset_render_text_image test_lib ?negative ''ab'' = Inl ?v"
    using b n2 by blast
  have r5: "dataset_render_text_image test_lib ?zero ''ab'' = Inl ?z"
    using c i2 z by blast
  have r6: "getitem test_lib ?good 7 = Inl IndexError"
    using d by simp
  from f i1 r1 r2 n1 r3 r4 r5 r6 show ?thesis by blast
qed

text \<open>
  C7 as the specification states it fails on its last part: there are error paths beside
  the font file. With a font that loads, \<open>__getitem__\<close> raises \<open>IndexError\<close> at the index
  3 of a dataset of three texts; and on a canvas of width \<open>-1\<close> both rendering functions
  fail when the canvas is created, although the font file is there.
\<close>

theorem error_paths_counterexample:
  "truetype test_lib ''mono.ttf'' 20 = Inr mono_font \<and>
   len (TextImageDataset [''a'', ''b''] 1 ''mono.ttf'' 20 (16, 24) False) = 3 \<and>
   getitem test_lib (TextImageDataset [''a'', ''b''] 1 ''mono.ttf'' 20 (16, 24) False) 3
     = Inl IndexError \<and>
   render_text_image test_lib ''a'' (- 1, 24) ''mono.ttf'' 20 ''center'' False
     = Inl (ValueError ''Width and height must be >= 0'') \<and>
   dataset_render_text_image test_lib
       (TextImageDataset [''a'', ''b''] 1 ''mono.ttf'' 20 (- 1, 24) False) ''a''
     = Inl (ValueError ''Width and height must be >= 0'')"
proof -
  have l: "len (TextImageDataset [''a'', ''b''] 1 ''mono.ttf'' 20 (16, 24) False) = 3"
    by (simp add: len_def TextImageDataset_def generate_all_combinations_def eval_nat_numeral)
  have g: "getitem test_lib (TextImageDataset [''a'', ''b''] 1 ''mono.ttf'' 20 (16, 24) False) 3
     = Inl IndexError"
    by (rule getitem_out_of_range) (simp add: l)
  have r: "render_text_image test_lib ''a'' (- 1, 24) ''mono.ttf'' 20 ''center'' False
     = Inl (ValueError ''Width and height must be >= 0'')"
    by (rule render_text_image_no_canvas) (simp add: Image_new_def test_lib_def getcolor_def)
  have d: "dataset_render_text_image test_lib
       (TextImageDataset [''a'', ''b''] 1 ''mono.ttf'' 20 (- 1, 24) False) ''a''
     = Inl (ValueError ''Width and height must be >= 0'')"
    by (rule dataset_render_no_canvas)
       (simp add: Image_new_def test_lib_def getcolor_def TextImageDataset_def)
  show ?thesis
    using l g r d by (simp add: test_lib_def)
qed



text \<open>
  C9. For an empty alphabet and every \<open>max_length\<close> (zero, positive or negative), the
  dataset holds exactly one text, the empty string.
\<close>

theorem empty_alphabet_dataset:
  "texts (TextImageDataset [] maxlen fname fsize isize arabic) = [''''] \<and>
   len (TextImageDataset [] maxlen fname fsize isize arabic) = 1"
  by (simp add: len_def TextImageDataset_def generate_empty_alphabet)

text \<open>
  C10. For every valid index \<open>idx\<close> (from \<open>-len\<close> to \<open>len - 1\<close>, a negative one counting
  from the end), \<open>__getitem__(idx)\<close> renders the text at that position of \<open>texts\<close> and
  pairs the tensor with that same text, unchanged: whatever it returns has that text as
  its second component, whatever the script flag and the shaping functions are, and it
  returns the pair whenever the rendering returns an image.
\<close>

theorem getitem_label:
  assumes "- int (len self) \<le> idx" and "idx < int (len self)"
  shows "getitem lib self idx =
           (case dataset_render_text_image lib self
                   (texts self ! nat (if idx < 0 then int (len self) + idx else idx)) of
              Inl e \<Rightarrow> Inl e
            | Inr img \<Rightarrow>
                Inr (transform lib img,
                     texts self ! nat (if idx < 0 then int (len self) + idx else idx))) \<and>
         (\<forall>tensor label. getitem lib self idx = Inr (tensor, label)
            \<longrightarrow> label = texts self ! nat (if idx < 0 then int (len self) + idx else idx)) \<and>
         (\<forall>img. dataset_render_text_image lib self
                   (texts self ! nat (if idx < 0 then int (len self) + idx else idx)) = Inr img
            \<longrightarrow> getitem lib self idx =
                  Inr (transform lib img,
                       texts self ! nat (if idx < 0 then int (len self) + idx else idx)))"
proof -
  note g = getitem_in_range [OF assms, of lib]
  have "\<forall>tensor label. getitem lib self idx = Inr (tensor, label)
            \<longrightarrow> label = texts self ! nat (if idx < 0 then int (len self) + idx else idx)"
    unfolding g by (auto split: sum.splits)
  moreover have "\<forall>img. dataset_render_text_image lib self
                   (texts self ! nat (if idx < 0 then int (len self) + idx else idx)) = Inr img
            \<longrightarrow> getitem lib self idx =
                  Inr (transform lib img,
                       texts self ! nat (if idx < 0 then int (len self) + idx else idx))"
    unfolding g by simp
  ultimately show ?thesis using g by blast
qed

theorem getitem_label_witness:
  "- int (len (TextImageDataset [''a'', ''b''] 2 ''mono.ttf'' 20 (16, 24) True)) \<le> 4 \<and>
   4 < int (len (TextImageDataset [''a'', ''b''] 2 ''mono.ttf'' 20 (16, 24) True)) \<and>
   - int (len (TextImageDataset [''a'', ''b''] 2 ''mono.ttf'' 20 (16, 24) True)) \<le> - 3 \<and>
   - 3 < int (len (TextImageDataset [''a'', ''b''] 2 ''mono.ttf'' 20 (16, 24) True)) \<and>
   texts (TextImageDataset [''a'', ''b''] 2 ''mono.ttf'' 20 (16, 24) True)
     = ['''', ''a'', ''b'', ''aa'', ''ab'', ''ba'', ''bb''] \<and>
   (\<exists>tensor. getitem test_lib (TextImageDataset [''a'', ''b''] 2 ''mono.ttf'' 20 (16, 24) True) 4
      = Inr (tensor, ''ab'')) \<and>
   (\<exists>tensor. getitem test_lib (TextImageDataset [''a'', ''b''] 2 ''mono.ttf'' 20 (16, 24) True) (- 3)
      = Inr (tensor, ''ab''))"
proof -
  let ?ds = "TextImageDataset [''a'', ''b''] 2 ''mono.ttf'' 20 (16, 24) True"
  have e: "texts ?ds = ['''', ''a'', ''b'', ''aa'', ''ab'', ''ba'', ''bb'']"
    by (simp add: TextImageDataset_def generate_all_combinations_def eval_nat_numeral join_def)
  have l: "len ?ds = 7" by (simp add: len_def e)
  have h1: "- int (len ?ds) \<le> 4" and h2: "4 < int (len ?ds)"
    and h3: "- int (len ?ds) \<le> - 3" and h4: "- 3 < int (len ?ds)"
    by (simp_all add: l)
  have t1: "texts ?ds ! nat (if (4::int) < 0 then int (len ?ds) + 4 else 4) = ''ab''"
    and t2: "texts ?ds ! nat (if (- 3::int) < 0 then int (len ?ds) + - 3 else - 3) = ''ab''"
    by (simp_all add: l e eval_nat_numeral)
  obtain img0 where i: "Image_new test_lib (image_size ?ds) (ColorRGB 255 255 255) = Inr img0"
    by (simp add: Image_new_def test_lib_def getcolor_def TextImageDataset_def)
  have f: "truetype test_lib (font_name ?ds) (font_size ?ds) = Inr mono_font"
    by (simp add: test_lib_def TextImageDataset_def)
  have r: "\<exists>img. dataset_render_text_image test_lib ?ds ''ab'' = Inr img"
    by (simp add: dataset_render_loaded [OF i f])
  from getitem_label [OF h1 h2, of test_lib] r
  have g1: "\<exists>tensor. getitem test_lib ?ds 4 = Inr (tensor, ''ab'')"
    unfolding t1 by blast
  from getitem_label [OF h3 h4, of test_lib] r
  have g2: "\<exists>tensor. getitem test_lib ?ds (- 3) = Inr (tensor, ''ab'')"
    unfolding t2 by blast
  from h1 h2 h3 h4 e g1 g2 show ?thesis by blast
qed

end
